theory Spec2Isabelle
  imports Complex_Main
begin

section \<open>JavaScript values as the response normalizer sees them\<close>

text \<open>
  The agent gateway hands \<open>parseAgentResponse\<close> a value decoded from JSON, and the function
  inspects it dynamically (optional chaining, truthiness, \<open>typeof\<close>, \<open>Array.isArray\<close>,
  \<open>??\<close>). The TypeScript casts (\<open>as string\<close>, \<open>as IncomeSummary\<close>) check nothing at run
  time, so every field of the value that reaches the report is kept as a JavaScript value.
  Numbers are the finite numbers JSON can carry; objects are key/value lists in insertion
  order, with distinct keys as \<open>JSON.parse\<close> leaves them.
\<close>

datatype jsval =
    JUndefined
  | JNull
  | JBool bool
  | JNum real
  | JStr string
  | JArr "jsval list"
  | JObj "(string \<times> jsval) list"

text \<open>What a \<open>throw\<close> carries: an \<open>Error\<close> instance with its message, or anything else.\<close>

datatype thrown = ErrorObj string | OtherThrown

definition bindE :: "thrown + 'a \<Rightarrow> ('a \<Rightarrow> thrown + 'b) \<Rightarrow> thrown + 'b" where
  "bindE m f = (case m of Inl e \<Rightarrow> Inl e | Inr v \<Rightarrow> f v)"

text \<open>Truthiness: what \<open>!v\<close>, \<open>v && ...\<close> and \<open>v || ...\<close> test.\<close>

fun truthy :: "jsval \<Rightarrow> bool" where
  "truthy JUndefined = False"
| "truthy JNull = False"
| "truthy (JBool b) = b"
| "truthy (JNum n) = (n \<noteq> 0)"
| "truthy (JStr s) = (s \<noteq> [])"
| "truthy (JArr xs) = True"
| "truthy (JObj kvs) = True"

text \<open>
  \<open>v?.k\<close>: \<open>undefined\<close> on \<open>null\<close> and \<open>undefined\<close>, the own property on an object, and
  \<open>undefined\<close> on strings, numbers, booleans and arrays (none of the keys the source reads
  is a prototype property of those).
\<close>

fun get :: "jsval \<Rightarrow> string \<Rightarrow> jsval" where
  "get (JObj kvs) k = (case map_of kvs k of Some v \<Rightarrow> v | None \<Rightarrow> JUndefined)"
| "get v k = JUndefined"

text \<open>
  \<open>v.k\<close> without the question mark: a TypeError on \<open>null\<close> and \<open>undefined\<close> (the message
  text is the engine's own; only the fact that an \<open>Error\<close> is thrown matters below).
\<close>

fun member :: "jsval \<Rightarrow> string \<Rightarrow> thrown + jsval" where
  "member JUndefined k = Inl (ErrorObj ''Cannot read properties of undefined'')"
| "member JNull k = Inl (ErrorObj ''Cannot read properties of null'')"
| "member v k = Inr (get v k)"

text \<open>\<open>typeof v === 'object'\<close> (true of \<open>null\<close> and of arrays too) and \<open>Array.isArray(v)\<close>.\<close>

fun typeof_object :: "jsval \<Rightarrow> bool" where
  "typeof_object JNull = True"
| "typeof_object (JArr xs) = True"
| "typeof_object (JObj kvs) = True"
| "typeof_object v = False"

fun isArray :: "jsval \<Rightarrow> bool" where
  "isArray (JArr xs) = True"
| "isArray v = False"

fun typeof_number :: "jsval \<Rightarrow> bool" where
  "typeof_number (JNum n) = True"
| "typeof_number v = False"

fun typeof_string :: "jsval \<Rightarrow> bool" where
  "typeof_string (JStr s) = True"
| "typeof_string v = False"

text \<open>\<open>a ?? b\<close>.\<close>

definition nullish :: "jsval \<Rightarrow> bool" where
  "nullish v = (v = JUndefined \<or> v = JNull)"

definition coalesce :: "jsval \<Rightarrow> jsval \<Rightarrow> jsval" where
  "coalesce a b = (if nullish a then b else a)"

section \<open>The canonical report\<close>

record FinancialReport =
  report_type :: jsval
  income_summary :: jsval
  credit_cards :: "jsval list"
  category_breakdown :: "jsval list"
  risk_alerts :: "jsval list"
  safe_to_spend :: real
  analysis_period :: jsval
  advice :: jsval
  follow_up_response :: jsval

section \<open>parseAgentResponse\<close>

text \<open>
  One unwrapping step of lines 232-237:
  \<open>if (data?.k && typeof data.k === 'object' && !Array.isArray(data.k)) data = data.k\<close>.
  The plain accesses \<open>data.k\<close> run only after \<open>data?.k\<close> was truthy.
\<close>

definition unwrap_key :: "string \<Rightarrow> jsval \<Rightarrow> thrown + jsval" where
  "unwrap_key k d =
     (if \<not> truthy (get d k) then Inr d
      else bindE (member d k) (\<lambda>v.
        if typeof_object v \<and> \<not> isArray v then Inr v else Inr d))"

definition unwrap :: "jsval \<Rightarrow> thrown + jsval" where
  "unwrap rawResult = bindE (unwrap_key ''result'' rawResult) (unwrap_key ''response'')"

text \<open>\<open>Array.isArray(data?.k) ? data.k : []\<close>.\<close>

definition array_field :: "jsval \<Rightarrow> string \<Rightarrow> thrown + jsval list" where
  "array_field d k =
     (if isArray (get d k)
      then bindE (member d k) (\<lambda>v. case v of JArr xs \<Rightarrow> Inr xs | _ \<Rightarrow> Inr [])
      else Inr [])"

text \<open>\<open>typeof data?.k === 'number' ? data.k : 0\<close>.\<close>

definition number_field :: "jsval \<Rightarrow> string \<Rightarrow> thrown + real" where
  "number_field d k =
     (if typeof_number (get d k)
      then bindE (member d k) (\<lambda>v. case v of JNum n \<Rightarrow> Inr n | _ \<Rightarrow> Inr 0)
      else Inr 0)"

text \<open>The detection test of line 239.\<close>

definition has_structured_key :: "jsval \<Rightarrow> bool" where
  "has_structured_key d =
     (truthy (get d ''income_summary'') \<or> truthy (get d ''credit_cards'')
        \<or> truthy (get d ''category_breakdown''))"

text \<open>The object literal of lines 240-250, fields evaluated in source order.\<close>

definition structured_report :: "jsval \<Rightarrow> thrown + FinancialReport" where
  "structured_report d =
     bindE (array_field d ''credit_cards'') (\<lambda>cards.
     bindE (array_field d ''category_breakdown'') (\<lambda>cats.
     bindE (array_field d ''risk_alerts'') (\<lambda>alerts.
     bindE (number_field d ''safe_to_spend'') (\<lambda>safe.
       Inr \<lparr> report_type = coalesce (get d ''report_type'') (JStr ''Monthly Analysis''),
             income_summary = coalesce (get d ''income_summary'') JNull,
             credit_cards = cards,
             category_breakdown = cats,
             risk_alerts = alerts,
             safe_to_spend = safe,
             analysis_period = coalesce (get d ''analysis_period'') (JStr ''Current Month''),
             advice = coalesce (get d ''advice'') (JStr []),
             follow_up_response = coalesce (get d ''follow_up_response'') (JStr []) \<rparr>))))"

text \<open>
  Lines 253-255. The text is read from \<open>rawResult\<close>, the payload as received, not from the
  unwrapped \<open>data\<close>. \<open>JSON.stringify\<close> is the parameter \<open>stringify\<close>.
\<close>

definition textResponse :: "(jsval \<Rightarrow> string) \<Rightarrow> jsval \<Rightarrow> jsval" where
  "textResponse stringify rawResult =
     (if typeof_string rawResult then rawResult
      else coalesce (coalesce (get rawResult ''text'') (get rawResult ''message''))
             (JStr (stringify rawResult)))"

definition conversational_report :: "jsval \<Rightarrow> FinancialReport" where
  "conversational_report txt =
     \<lparr> report_type = JStr [],
       income_summary = JNull,
       credit_cards = [],
       category_breakdown = [],
       risk_alerts = [],
       safe_to_spend = 0,
       analysis_period = JStr [],
       advice = JStr [],
       follow_up_response = txt \<rparr>"

text \<open>
  The function itself. \<open>Inr None\<close> is the \<open>null\<close> result, \<open>Inl\<close> an exception leaving the
  function.
\<close>

definition parseAgentResponse ::
    "(jsval \<Rightarrow> string) \<Rightarrow> jsval \<Rightarrow> thrown + FinancialReport option" where
  "parseAgentResponse stringify result =
     (if \<not> truthy (get result ''success'') then Inr None
      else
        let rawResult = get (get result ''response'') ''result'' in
        if \<not> truthy rawResult then Inr None
        else
          bindE (unwrap rawResult) (\<lambda>data.
            if has_structured_key data
            then bindE (structured_report data) (\<lambda>r. Inr (Some r))
            else Inr (Some (conversational_report (textResponse stringify rawResult)))))"

text \<open>The success envelope \<open>{success: true, response: {result: payload}}\<close>.\<close>

definition envelope :: "jsval \<Rightarrow> jsval" where
  "envelope payload =
     JObj [(''success'', JBool True), (''response'', JObj [(''result'', payload)])]"

section \<open>Profiles, history entries, chat messages\<close>

record CreditCardProfile =
  cc_name :: string
  cc_limit :: real

record EMIProfile =
  emi_name :: string
  emi_amount :: real

record FixedExpenses =
  rent :: real
  utilities :: real
  insurance :: real

record FinancialProfile =
  salary :: real
  cards :: "CreditCardProfile list"
  emis :: "EMIProfile list"
  fixedExpenses :: FixedExpenses

text \<open>
  A history entry. \<open>handleViewHistoryEntry\<close> tests \<open>entry.profile\<close> before using it, so
  an entry read back from storage may lack its profile: \<open>None\<close>.
\<close>

record HistoryEntry =
  entry_id :: string
  entry_date :: string
  entry_report :: FinancialReport
  entry_profile :: "FinancialProfile option"

datatype chat_role = User | Agent

record ChatMessage =
  role :: chat_role
  content :: jsval
  timestamp :: nat

definition MANAGER_AGENT_ID :: string where
  "MANAGER_AGENT_ID = ''6992c20848cf09a10ff22202''"

definition SAMPLE_PROFILE :: FinancialProfile where
  "SAMPLE_PROFILE =
     \<lparr> salary = 8500,
       cards = [\<lparr> cc_name = ''Chase Sapphire'', cc_limit = 15000 \<rparr>,
                \<lparr> cc_name = ''Amex Gold'', cc_limit = 10000 \<rparr>],
       emis = [\<lparr> emi_name = ''Car Loan'', emi_amount = 450 \<rparr>,
               \<lparr> emi_name = ''Student Loan'', emi_amount = 280 \<rparr>],
       fixedExpenses = \<lparr> rent = 1800, utilities = 220, insurance = 180 \<rparr> \<rparr>"

definition sample_card :: "string \<Rightarrow> real \<Rightarrow> real \<Rightarrow> real \<Rightarrow> jsval" where
  "sample_card n l sp u =
     JObj [(''card_name'', JStr n), (''limit'', JNum l), (''spend'', JNum sp),
           (''utilization_percent'', JNum u)]"

definition sample_category :: "string \<Rightarrow> real \<Rightarrow> real \<Rightarrow> real \<Rightarrow> jsval" where
  "sample_category c a p n =
     JObj [(''category'', JStr c), (''amount'', JNum a), (''percent_of_total'', JNum p),
           (''transaction_count'', JNum n)]"

definition sample_alert :: "string \<Rightarrow> string \<Rightarrow> string \<Rightarrow> jsval" where
  "sample_alert t m sev =
     JObj [(''alert_type'', JStr t), (''message'', JStr m), (''severity'', JStr sev)]"

definition SAMPLE_REPORT :: FinancialReport where
  "SAMPLE_REPORT =
     \<lparr> report_type = JStr ''Monthly Financial Analysis'',
       income_summary =
         JObj [(''net_income'', JNum 8500), (''total_fixed_expenses'', JNum 2200),
               (''total_variable_expenses'', JNum 2850), (''total_emi'', JNum 730),
               (''total_outflow'', JNum 5780), (''savings'', JNum 2720),
               (''savings_rate'', JNum 32)],
       credit_cards =
         [sample_card ''Chase Sapphire'' 15000 3200 (213 / 10),
          sample_card ''Amex Gold'' 10000 1850 (185 / 10)],
       category_breakdown =
         [sample_category ''Groceries'' 680 (132 / 10) 12,
          sample_category ''Dining Out'' 420 (81 / 10) 8,
          sample_category ''Transportation'' 310 6 15,
          sample_category ''Entertainment'' 280 (54 / 10) 6,
          sample_category ''Shopping'' 560 (108 / 10) 9,
          sample_category ''Subscriptions'' 120 (23 / 10) 5,
          sample_category ''Healthcare'' 240 (46 / 10) 3,
          sample_category ''Travel'' 240 (46 / 10) 2],
       risk_alerts =
         [sample_alert ''Spending Trend''
            ''Dining expenses increased 18% compared to last month'' ''medium'',
          sample_alert ''Budget Warning''
            ''Entertainment spending is approaching your monthly average'' ''low'',
          sample_alert ''Credit Alert''
            ''Chase Sapphire approaching 25% utilization threshold'' ''high''],
       safe_to_spend = 1420,
       analysis_period = JStr ''January 2026'',
       advice = JStr (''Your savings rate of 32% is excellent. Consider reducing dining ''
         @ ''expenses which increased 18% this month. Your credit utilization remains ''
         @ ''healthy across both cards. Continue maintaining this disciplined approach ''
         @ ''to build your emergency fund.''),
       follow_up_response = JStr [] \<rparr>"

section \<open>The state of the Page component\<close>

datatype tab = Dashboard | ProfileTab | HistoryTab

text \<open>
  A call of \<open>callAIAgent(message, MANAGER_AGENT_ID, {session_id})\<close>. The analysis message
  is the serialization of the request object built from the profile; the chat message is
  the user's text.
\<close>

datatype gateway_call =
    AnalyzeCall FinancialProfile string
  | ChatCall string string

text \<open>
  The \<open>useState\<close> cells of \<open>Page\<close>, and what the model adds to follow the effects: the
  log of gateway calls, and the calls still awaiting their response (an analysis holds
  the \<open>profile\<close> its closure captured, a chat nothing the continuation reads).
\<close>

record page_state =
  activeTab :: tab
  profile :: "FinancialProfile option"
  hasProfile :: bool
  report :: "FinancialReport option"
  loading :: bool
  error :: "string option"
  chatOpen :: bool
  chatMessages :: "ChatMessage list"
  chatLoading :: bool
  history :: "HistoryEntry list"
  sampleMode :: bool
  activeAgentId :: "string option"
  sessionId :: string
  gateway_calls :: "gateway_call list"
  pendingAnalyses :: "FinancialProfile list"
  pendingChats :: "string list"

definition initial_state :: page_state where
  "initial_state =
     \<lparr> activeTab = Dashboard, profile = None, hasProfile = False, report = None,
       loading = False, error = None, chatOpen = False, chatMessages = [],
       chatLoading = False, history = [], sampleMode = False, activeAgentId = None,
       sessionId = [], gateway_calls = [], pendingAnalyses = [], pendingChats = [] \<rparr>"

subsection \<open>Startup: the mount effect\<close>

text \<open>
  What \<open>localStorage.getItem\<close> followed by \<open>JSON.parse\<close> yields for the two keys. The
  whole block sits in one \<open>try\<close>: a history item that does not parse skips the profile
  too. The persistent store is read here and nowhere else, so the writes to it
  (\<open>setItem\<close> in \<open>saveHistory\<close> and \<open>handleSaveProfile\<close>, failures ignored) do not
  appear in the in-memory state. A stored array is taken to hold history entries and a
  stored object with a truthy \<open>salary\<close> to have the fields of a profile, of the declared
  types; their values are whatever the store holds.
\<close>

datatype stored_history =
    NoHistory
  | BadHistoryJson
  | NotAnArray
  | HistoryArray "HistoryEntry list"

datatype stored_profile =
    NoProfile
  | BadProfileJson
  | NoSalary
  | ProfileObj FinancialProfile

definition mount_effect ::
    "string \<Rightarrow> stored_history \<Rightarrow> stored_profile \<Rightarrow> page_state \<Rightarrow> page_state" where
  "mount_effect sid sh sp s =
     (let s1 = s\<lparr> sessionId := sid \<rparr> in
      case sh of
        BadHistoryJson \<Rightarrow> s1
      | _ \<Rightarrow>
          let s2 = (case sh of HistoryArray h \<Rightarrow> s1\<lparr> history := h \<rparr> | _ \<Rightarrow> s1) in
          (case sp of
             ProfileObj p \<Rightarrow>
               if salary p \<noteq> 0 then s2\<lparr> profile := Some p, hasProfile := True \<rparr> else s2
           | _ \<Rightarrow> s2))"

definition startup :: "string \<Rightarrow> stored_history \<Rightarrow> stored_profile \<Rightarrow> page_state" where
  "startup sid sh sp = mount_effect sid sh sp initial_state"

subsection \<open>saveHistory\<close>

definition new_entry ::
    "string \<Rightarrow> string \<Rightarrow> FinancialReport \<Rightarrow> FinancialProfile \<Rightarrow> HistoryEntry" where
  "new_entry stamp date newReport currentProfile =
     \<lparr> entry_id = stamp, entry_date = date, entry_report = newReport,
       entry_profile = Some currentProfile \<rparr>"

text \<open>
  The updater passed to \<open>setHistory\<close>: \<open>[entry, ...prev].slice(0, 20)\<close>. \<open>stamp\<close> is the
  rendering of \<open>Date.now()\<close>, \<open>date\<close> the formatted date.
\<close>

definition saveHistory ::
    "string \<Rightarrow> string \<Rightarrow> FinancialReport \<Rightarrow> FinancialProfile \<Rightarrow> HistoryEntry list
       \<Rightarrow> HistoryEntry list" where
  "saveHistory stamp date newReport currentProfile prev =
     take 20 (new_entry stamp date newReport currentProfile # prev)"

text \<open>A run of successful analyses, oldest first, each one calling \<open>saveHistory\<close>.\<close>

fun record_all ::
    "HistoryEntry list \<Rightarrow> (string \<times> string \<times> FinancialReport \<times> FinancialProfile) list
       \<Rightarrow> HistoryEntry list" where
  "record_all h [] = h"
| "record_all h ((stamp, date, r, p) # rest) = record_all (saveHistory stamp date r p h) rest"

subsection \<open>The handlers\<close>

definition handleSaveProfile :: "FinancialProfile \<Rightarrow> page_state \<Rightarrow> page_state" where
  "handleSaveProfile p s = s\<lparr> profile := Some p, hasProfile := True, activeTab := Dashboard \<rparr>"

text \<open>\<open>handleAnalyze\<close> up to its \<open>await\<close>.\<close>

definition handleAnalyze_start :: "page_state \<Rightarrow> page_state" where
  "handleAnalyze_start s =
     (case profile s of
        None \<Rightarrow> s
      | Some p \<Rightarrow>
          s\<lparr> loading := True, error := None, activeAgentId := Some MANAGER_AGENT_ID,
             gateway_calls := gateway_calls s @ [AnalyzeCall p (sessionId s)],
             pendingAnalyses := pendingAnalyses s @ [p] \<rparr>)"

text \<open>
  \<open>handleAnalyze\<close> after the \<open>await\<close>: \<open>outcome\<close> is the envelope the gateway resolved
  with, or what it threw; \<open>p\<close> is the captured profile.
\<close>

definition handleAnalyze_settled ::
    "(jsval \<Rightarrow> string) \<Rightarrow> FinancialProfile \<Rightarrow> thrown + jsval \<Rightarrow> string \<Rightarrow> string
       \<Rightarrow> page_state \<Rightarrow> page_state" where
  "handleAnalyze_settled stringify p outcome stamp date s =
     (let s1 =
        (case bindE outcome (parseAgentResponse stringify) of
           Inr (Some parsed) \<Rightarrow>
             s\<lparr> report := Some parsed,
                history := saveHistory stamp date parsed p (history s) \<rparr>
         | Inr None \<Rightarrow>
             s\<lparr> error := Some ''Could not parse the financial analysis. Please try again.'' \<rparr>
         | Inl (ErrorObj m) \<Rightarrow> s\<lparr> error := Some m \<rparr>
         | Inl OtherThrown \<Rightarrow> s\<lparr> error := Some ''An error occurred during analysis.'' \<rparr>)
      in s1\<lparr> loading := False, activeAgentId := None \<rparr>)"

text \<open>\<open>handleChatSend\<close> up to its \<open>await\<close>.\<close>

definition handleChatSend_start :: "string \<Rightarrow> nat \<Rightarrow> page_state \<Rightarrow> page_state" where
  "handleChatSend_start userMessage now s =
     s\<lparr> chatMessages :=
          chatMessages s @ [\<lparr> role = User, content = JStr userMessage, timestamp = now \<rparr>],
        chatLoading := True,
        activeAgentId := Some MANAGER_AGENT_ID,
        gateway_calls := gateway_calls s @ [ChatCall userMessage (sessionId s)],
        pendingChats := pendingChats s @ [userMessage] \<rparr>"

text \<open>\<open>a || b\<close>, and \<open>parsed?.field\<close> on a report that may be \<open>null\<close>.\<close>

definition or_else :: "jsval \<Rightarrow> jsval \<Rightarrow> jsval" where
  "or_else a b = (if truthy a then a else b)"

definition report_field :: "(FinancialReport \<Rightarrow> jsval) \<Rightarrow> FinancialReport option \<Rightarrow> jsval" where
  "report_field f parsed = (case parsed of None \<Rightarrow> JUndefined | Some r \<Rightarrow> f r)"

text \<open>\<open>handleChatSend\<close> after the \<open>await\<close>.\<close>

definition handleChatSend_settled ::
    "(jsval \<Rightarrow> string) \<Rightarrow> thrown + jsval \<Rightarrow> nat \<Rightarrow> page_state \<Rightarrow> page_state" where
  "handleChatSend_settled stringify outcome now s =
     (let s1 =
        (case bindE outcome (\<lambda>result.
                bindE (parseAgentResponse stringify result) (\<lambda>parsed. Inr (result, parsed))) of
           Inr (result, parsed) \<Rightarrow>
             let responseText =
                   or_else (or_else (or_else (report_field follow_up_response parsed)
                                             (report_field advice parsed))
                                    (get (get result ''response'') ''message''))
                           (JStr ''I was unable to process your request. Please try again.'');
                 s2 = s\<lparr> chatMessages := chatMessages s
                          @ [\<lparr> role = Agent, content = responseText, timestamp = now \<rparr>] \<rparr>
             in if truthy (report_field income_summary parsed)
                then s2\<lparr> report := parsed \<rparr> else s2
         | Inl e \<Rightarrow>
             s\<lparr> chatMessages := chatMessages s
                 @ [\<lparr> role = Agent,
                      content = JStr ''Sorry, an error occurred. Please try again.'',
                      timestamp = now \<rparr>] \<rparr>)
      in s1\<lparr> chatLoading := False, activeAgentId := None \<rparr>)"

definition handleSampleToggle :: "bool \<Rightarrow> page_state \<Rightarrow> page_state" where
  "handleSampleToggle checked s =
     (let s1 = s\<lparr> sampleMode := checked \<rparr> in
      if checked
      then (let s2 = (if \<not> hasProfile s
                      then s1\<lparr> profile := Some SAMPLE_PROFILE, hasProfile := True \<rparr>
                      else s1)
            in s2\<lparr> report := Some SAMPLE_REPORT \<rparr>)
      else s1\<lparr> report := None \<rparr>)"

definition handleViewHistoryEntry :: "HistoryEntry \<Rightarrow> page_state \<Rightarrow> page_state" where
  "handleViewHistoryEntry entry s =
     (let s1 = s\<lparr> report := Some (entry_report entry) \<rparr>;
          s2 = (case entry_profile entry of
                  Some p \<Rightarrow> s1\<lparr> profile := Some p, hasProfile := True \<rparr>
                | None \<Rightarrow> s1)
      in s2\<lparr> activeTab := Dashboard \<rparr>)"

subsection \<open>What the rendered page lets the user trigger\<close>

text \<open>
  The three return branches of \<open>Page\<close>: the first-run branch (sample dashboard or setup
  form), the profile editor, the main dashboard.
\<close>

datatype view = SetupForm | SampleDashboard | ProfileEdit | MainDashboard

definition current_view :: "page_state \<Rightarrow> view" where
  "current_view s =
     (if \<not> hasProfile s \<and> activeTab s \<noteq> ProfileTab
      then (if sampleMode s then SampleDashboard else SetupForm)
      else if activeTab s = ProfileTab then ProfileEdit
      else MainDashboard)"

text \<open>
  The controls of \<open>DashboardView\<close> wired to \<open>onAnalyze\<close>, from its props: "Try Again"
  inside \<open>{error && ...}\<close> (no \<open>disabled\<close>), "Analyze My Finances" inside
  \<open>{!loading && !report && ...}\<close> and "Re-analyze" inside
  \<open>{!loading && report && ...}\<close>, \<open>{report.report_type && ...}\<close>, both with
  \<open>disabled={loading}\<close>. The tab that shows them is not taken into account: a control
  counts as available whenever the dashboard would render it.
\<close>

definition try_again_button :: "string option \<Rightarrow> bool" where
  "try_again_button err = (case err of None \<Rightarrow> False | Some m \<Rightarrow> m \<noteq> [])"

definition analyze_cta_button :: "bool \<Rightarrow> FinancialReport option \<Rightarrow> bool" where
  "analyze_cta_button ld rep = (\<not> ld \<and> rep = None \<and> \<not> ld)"

definition reanalyze_button :: "bool \<Rightarrow> FinancialReport option \<Rightarrow> bool" where
  "reanalyze_button ld rep =
     (\<not> ld \<and> (case rep of None \<Rightarrow> False | Some r \<Rightarrow> truthy (report_type r)) \<and> \<not> ld)"

definition analyze_buttons :: "bool \<Rightarrow> string option \<Rightarrow> FinancialReport option \<Rightarrow> bool" where
  "analyze_buttons ld err rep =
     (try_again_button err \<or> analyze_cta_button ld rep \<or> reanalyze_button ld rep)"

text \<open>
  The sample dashboard of the first-run branch is rendered with \<open>loading={false}\<close>,
  \<open>error={null}\<close> and \<open>report={SAMPLE_REPORT}\<close>, whatever the state holds.
\<close>

definition can_click_analyze :: "page_state \<Rightarrow> bool" where
  "can_click_analyze s =
     (case current_view s of
        MainDashboard \<Rightarrow> analyze_buttons (loading s) (error s) (report s)
      | SampleDashboard \<Rightarrow> analyze_buttons False None (Some SAMPLE_REPORT)
      | _ \<Rightarrow> False)"

definition chat_suggestions :: "string list" where
  "chat_suggestions =
     [''What if I cancel my streaming subscriptions?'',
      ''How can I reduce dining expenses?'',
      ''Should I pay off my car loan early?'']"

text \<open>
  The events of the page: user actions, and the settling of a gateway call (the index
  selects the pending analysis whose continuation runs).
\<close>

datatype event =
    ClickAnalyze
  | AnalysisSettled nat "thrown + jsval" string string
  | ChatSend string nat
  | ChatSettled "thrown + jsval" nat
  | SaveProfile FinancialProfile
  | SampleToggle bool
  | ViewHistoryEntry HistoryEntry
  | TabChange tab
  | SetChatOpen bool

fun enabled :: "event \<Rightarrow> page_state \<Rightarrow> bool" where
  "enabled ClickAnalyze s = can_click_analyze s"
| "enabled (AnalysisSettled i outcome stamp date) s = (i < length (pendingAnalyses s))"
| "enabled (ChatSend msg now) s =
     (current_view s \<noteq> ProfileEdit \<and> chatOpen s \<and>
      ((chatMessages s = [] \<and> msg \<in> set chat_suggestions) \<or> (msg \<noteq> [] \<and> \<not> chatLoading s)))"
| "enabled (ChatSettled outcome now) s = (pendingChats s \<noteq> [])"
| "enabled (SaveProfile p) s =
     ((current_view s = SetupForm \<or> current_view s = ProfileEdit) \<and> \<not> salary p \<le> 0)"
| "enabled (SampleToggle checked) s = True"
| "enabled (ViewHistoryEntry entry) s =
     ((current_view s = MainDashboard \<or> current_view s = SampleDashboard)
        \<and> entry \<in> set (history s))"
| "enabled (TabChange t) s =
     (current_view s = MainDashboard \<or> current_view s = SampleDashboard
        \<or> (current_view s = ProfileEdit \<and> t = Dashboard))"
| "enabled (SetChatOpen b) s =
     (if b then \<not> chatOpen s \<and> (current_view s = MainDashboard \<or> current_view s = SampleDashboard)
      else chatOpen s \<and> current_view s \<noteq> ProfileEdit)"

fun fire :: "(jsval \<Rightarrow> string) \<Rightarrow> event \<Rightarrow> page_state \<Rightarrow> page_state" where
  "fire stringify ClickAnalyze s = handleAnalyze_start s"
| "fire stringify (AnalysisSettled i outcome stamp date) s =
     handleAnalyze_settled stringify (pendingAnalyses s ! i) outcome stamp date
       (s\<lparr> pendingAnalyses := take i (pendingAnalyses s) @ drop (Suc i) (pendingAnalyses s) \<rparr>)"
| "fire stringify (ChatSend msg now) s = handleChatSend_start msg now s"
| "fire stringify (ChatSettled outcome now) s =
     handleChatSend_settled stringify outcome now (s\<lparr> pendingChats := tl (pendingChats s) \<rparr>)"
| "fire stringify (SaveProfile p) s = handleSaveProfile p s"
| "fire stringify (SampleToggle checked) s = handleSampleToggle checked s"
| "fire stringify (ViewHistoryEntry entry) s = handleViewHistoryEntry entry s"
| "fire stringify (TabChange t) s = s\<lparr> activeTab := t \<rparr>"
| "fire stringify (SetChatOpen b) s = s\<lparr> chatOpen := b \<rparr>"

definition step :: "(jsval \<Rightarrow> string) \<Rightarrow> event \<Rightarrow> page_state \<Rightarrow> page_state option" where
  "step stringify ev s = (if enabled ev s then Some (fire stringify ev s) else None)"

text \<open>A run of events; \<open>None\<close> when one of them is not available in the state it meets.\<close>

fun run :: "(jsval \<Rightarrow> string) \<Rightarrow> event list \<Rightarrow> page_state \<Rightarrow> page_state option" where
  "run stringify [] s = Some s"
| "run stringify (ev # evs) s =
     (case step stringify ev s of None \<Rightarrow> None | Some s' \<Rightarrow> run stringify evs s')"

section \<open>The specification's reading of the normalizer\<close>

text \<open>
  The structured report as the specification words it: each recognised field copied, with
  a typed default when absent or malformed.
\<close>

definition spec_array :: "jsval \<Rightarrow> jsval list" where
  "spec_array v = (case v of JArr xs \<Rightarrow> xs | _ \<Rightarrow> [])"

definition spec_number :: "jsval \<Rightarrow> real" where
  "spec_number v = (case v of JNum n \<Rightarrow> n | _ \<Rightarrow> 0)"

definition spec_default :: "jsval \<Rightarrow> string \<Rightarrow> jsval" where
  "spec_default v placeholder = (if v = JUndefined \<or> v = JNull then JStr placeholder else v)"

definition spec_structured :: "jsval \<Rightarrow> FinancialReport" where
  "spec_structured d =
     \<lparr> report_type = spec_default (get d ''report_type'') ''Monthly Analysis'',
       income_summary =
         (if get d ''income_summary'' = JUndefined then JNull else get d ''income_summary''),
       credit_cards = spec_array (get d ''credit_cards''),
       category_breakdown = spec_array (get d ''category_breakdown''),
       risk_alerts = spec_array (get d ''risk_alerts''),
       safe_to_spend = spec_number (get d ''safe_to_spend''),
       analysis_period = spec_default (get d ''analysis_period'') ''Current Month'',
       advice = spec_default (get d ''advice'') [],
       follow_up_response = spec_default (get d ''follow_up_response'') [] \<rparr>"

text \<open>A key counts as present when the object has it, whatever its value.\<close>

definition has_key :: "jsval \<Rightarrow> string \<Rightarrow> bool" where
  "has_key d k = (case d of JObj kvs \<Rightarrow> k \<in> fst ` set kvs | _ \<Rightarrow> False)"

text \<open>A conversational report: every field but \<open>follow_up_response\<close> at its empty default.\<close>

definition is_conversational :: "FinancialReport \<Rightarrow> bool" where
  "is_conversational r =
     (income_summary r = JNull \<and> credit_cards r = [] \<and> category_breakdown r = []
        \<and> risk_alerts r = [] \<and> safe_to_spend r = 0 \<and> report_type r = JStr []
        \<and> analysis_period r = JStr [] \<and> advice r = JStr [])"

text \<open>The priority order for the conversational text, applied to one payload.\<close>

definition spec_text :: "(jsval \<Rightarrow> string) \<Rightarrow> jsval \<Rightarrow> jsval" where
  "spec_text stringify payload =
     (case payload of
        JStr t \<Rightarrow> JStr t
      | _ \<Rightarrow>
          if \<not> nullish (get payload ''text'') then get payload ''text''
          else if \<not> nullish (get payload ''message'') then get payload ''message''
          else JStr (stringify payload))"

text \<open>A payload that carries no object under \<open>result\<close> or \<open>response\<close> to unwrap.\<close>

definition is_wrapper :: "jsval \<Rightarrow> bool" where
  "is_wrapper v = (case v of JObj kvs \<Rightarrow> True | _ \<Rightarrow> False)"

definition no_wrapper :: "jsval \<Rightarrow> bool" where
  "no_wrapper d = (\<not> is_wrapper (get d ''result'') \<and> \<not> is_wrapper (get d ''response''))"

text \<open>The result payload of an envelope, and the payload the field inspection looks at.\<close>

definition payload_of :: "jsval \<Rightarrow> jsval" where
  "payload_of result = get (get result ''response'') ''result''"

definition unwrapped :: "jsval \<Rightarrow> jsval" where
  "unwrapped rawResult =
     (let d1 = (if is_wrapper (get rawResult ''result'') then get rawResult ''result''
                else rawResult)
      in if is_wrapper (get d1 ''response'') then get d1 ''response'' else d1)"

text \<open>The entry one successful analysis leaves in the history.\<close>

definition entry_of :: "string \<times> string \<times> FinancialReport \<times> FinancialProfile \<Rightarrow> HistoryEntry" where
  "entry_of a = (case a of (stamp, date, r, p) \<Rightarrow> new_entry stamp date r p)"

section \<open>The invariant behind the analysis gate\<close>

text \<open>
  What every reachable state satisfies: at most one analysis awaits its response, the
  busy flag \<open>loading\<close> is set exactly while one does, no error is shown meanwhile, and
  a profile is held whenever \<open>loading\<close> or a profile-dependent view needs one.
\<close>

definition analysis_inv :: "page_state \<Rightarrow> bool" where
  "analysis_inv s =
     (length (pendingAnalyses s) \<le> 1
      \<and> (loading s \<longleftrightarrow> pendingAnalyses s \<noteq> [])
      \<and> (loading s \<longrightarrow> error s = None)
      \<and> (loading s \<longrightarrow> profile s \<noteq> None)
      \<and> (profile s \<noteq> None \<longrightarrow> hasProfile s))"

section \<open>Complete profiles\<close>

text \<open>
  A profile is complete when its salary is positive. The predicates below say that every
  profile the state holds (the active one, those of the history entries, those captured
  by pending analyses, those sent to the gateway) is complete, and that the persistent
  store holds nothing else.
\<close>

definition profile_ok :: "FinancialProfile option \<Rightarrow> bool" where
  "profile_ok po = (case po of None \<Rightarrow> True | Some p \<Rightarrow> 0 < salary p)"

fun call_ok :: "gateway_call \<Rightarrow> bool" where
  "call_ok (AnalyzeCall p sid) = (0 < salary p)"
| "call_ok (ChatCall msg sid) = True"

definition salary_inv :: "page_state \<Rightarrow> bool" where
  "salary_inv s =
     (profile_ok (profile s)
      \<and> list_all (\<lambda>e. profile_ok (entry_profile e)) (history s)
      \<and> list_all (\<lambda>p. 0 < salary p) (pendingAnalyses s)
      \<and> list_all call_ok (gateway_calls s))"

definition clean_store :: "stored_history \<Rightarrow> stored_profile \<Rightarrow> bool" where
  "clean_store sh sp =
     ((case sp of ProfileObj p \<Rightarrow> 0 \<le> salary p | _ \<Rightarrow> True)
      \<and> (case sh of HistoryArray h \<Rightarrow> list_all (\<lambda>e. profile_ok (entry_profile e)) h
           | _ \<Rightarrow> True))"

section \<open>The normalizer never throws, and what it computes\<close>

text \<open>
  Every plain property access of the source is guarded by a test on the same access, so
  the TypeError branch of \<open>member\<close> is never taken.
\<close>

lemma member_of_truthy: "truthy (get d k) \<Longrightarrow> member d k = Inr (get d k)"
  by (cases d) simp_all

lemma member_of_isArray: "isArray (get d k) \<Longrightarrow> member d k = Inr (get d k)"
  by (cases d) simp_all

lemma member_of_number: "typeof_number (get d k) \<Longrightarrow> member d k = Inr (get d k)"
  by (cases d) simp_all

lemma wrapper_iff: "is_wrapper v = (truthy v \<and> typeof_object v \<and> \<not> isArray v)"
  by (cases v) (simp_all add: is_wrapper_def)

lemma unwrap_key_eq: "unwrap_key k d = Inr (if is_wrapper (get d k) then get d k else d)"
  by (simp add: unwrap_key_def wrapper_iff member_of_truthy bindE_def)

lemma unwrap_eq: "unwrap rawResult = Inr (unwrapped rawResult)"
  by (simp add: unwrap_def unwrapped_def unwrap_key_eq bindE_def Let_def)

lemma array_field_eq: "array_field d k = Inr (spec_array (get d k))"
  by (cases "get d k") (simp_all add: array_field_def spec_array_def member_of_isArray bindE_def)

lemma number_field_eq: "number_field d k = Inr (spec_number (get d k))"
  by (cases "get d k") (simp_all add: number_field_def spec_number_def member_of_number bindE_def)

lemma coalesce_eq: "coalesce v (JStr p) = spec_default v p"
  by (simp add: coalesce_def spec_default_def nullish_def)

lemma structured_report_eq: "structured_report d = Inr (spec_structured d)"
  by (simp add: structured_report_def spec_structured_def array_field_eq number_field_eq
        coalesce_eq bindE_def) (simp add: coalesce_def nullish_def)

lemma parseAgentResponse_eq:
  "parseAgentResponse stringify result =
     Inr (if \<not> truthy (get result ''success'') \<or> \<not> truthy (payload_of result) then None
          else if has_structured_key (unwrapped (payload_of result))
          then Some (spec_structured (unwrapped (payload_of result)))
          else Some (conversational_report (textResponse stringify (payload_of result))))"
  by (simp add: parseAgentResponse_def payload_of_def unwrap_eq structured_report_eq bindE_def
        Let_def)

lemma get_truthy_obj: "truthy (get d k) \<Longrightarrow> is_wrapper d"
  by (cases d) (simp_all add: is_wrapper_def)

lemma unwrapped_obj: "is_wrapper (unwrapped raw) \<Longrightarrow> is_wrapper raw"
  by (cases raw) (simp_all add: unwrapped_def is_wrapper_def Let_def)

lemma wrapper_truthy: "is_wrapper v \<Longrightarrow> truthy v"
  by (cases v) (simp_all add: is_wrapper_def)

text \<open>
  C1 (as amended). For every successful envelope whose unwrapped payload has a truthy
  value under at least one of \<open>income_summary\<close>, \<open>credit_cards\<close>, \<open>category_breakdown\<close>
  (whichever of the three), \<open>parseAgentResponse\<close> returns, without throwing, the
  structured report of the specification: \<open>income_summary\<close> as given (\<open>null\<close> when
  absent), each array field as given when it is an array and empty otherwise,
  \<open>safe_to_spend\<close> as given when it is a number and 0 otherwise, the string fields with
  their placeholders when absent.
\<close>

theorem parse_structured_correct:
  assumes "truthy (get result ''success'')"
    and "k \<in> {''income_summary'', ''credit_cards'', ''category_breakdown''}"
    and "truthy (get (unwrapped (payload_of result)) k)"
  shows "parseAgentResponse stringify result
           = Inr (Some (spec_structured (unwrapped (payload_of result))))"
proof -
  have "is_wrapper (payload_of result)"
    by (rule unwrapped_obj, rule get_truthy_obj, rule assms(3))
  then have "truthy (payload_of result)"
    by (rule wrapper_truthy)
  moreover have "has_structured_key (unwrapped (payload_of result))"
    using assms(2,3) by (auto simp: has_structured_key_def)
  ultimately show ?thesis
    using assms(1) by (simp add: parseAgentResponse_eq)
qed

text \<open>
  The scenario of the specification: a payload with one credit card, a negative spend and
  a malformed utilization.
\<close>

theorem parse_structured_example:
  "parseAgentResponse (\<lambda>v. ''serialized'')
     (envelope (JObj [(''credit_cards'',
        JArr [JObj [(''card_name'', JStr ''X''), (''limit'', JNum 1000), (''spend'', JNum (- 50)),
                    (''utilization_percent'', JStr ''bad'')]])]))
   = Inr (Some \<lparr> report_type = JStr ''Monthly Analysis'', income_summary = JNull,
         credit_cards = [JObj [(''card_name'', JStr ''X''), (''limit'', JNum 1000),
                               (''spend'', JNum (- 50)), (''utilization_percent'', JStr ''bad'')]],
         category_breakdown = [], risk_alerts = [], safe_to_spend = 0,
         analysis_period = JStr ''Current Month'', advice = JStr [],
         follow_up_response = JStr [] \<rparr>)"
  using parse_structured_correct [of
      "envelope (JObj [(''credit_cards'',
        JArr [JObj [(''card_name'', JStr ''X''), (''limit'', JNum 1000), (''spend'', JNum (- 50)),
                    (''utilization_percent'', JStr ''bad'')]])])"
      "''credit_cards''" "\<lambda>v. ''serialized''"]
  by (simp add: envelope_def payload_of_def unwrapped_def is_wrapper_def spec_structured_def
        spec_default_def spec_array_def spec_number_def)

text \<open>
  C1 as stated fails: the payload \<open>{credit_cards: 0}\<close> has the key \<open>credit_cards\<close> and needs
  no unwrapping, yet line 239 tests the value, not the key, and the result is the
  conversational report, not the structured one.
\<close>

theorem parse_present_key_refuted:
  "has_key (JObj [(''credit_cards'', JNum 0)]) ''credit_cards''
   \<and> unwrapped (JObj [(''credit_cards'', JNum 0)]) = JObj [(''credit_cards'', JNum 0)]
   \<and> parseAgentResponse (\<lambda>v. ''serialized'') (envelope (JObj [(''credit_cards'', JNum 0)]))
       = Inr (Some (conversational_report (JStr ''serialized'')))
   \<and> conversational_report (JStr ''serialized'')
       \<noteq> spec_structured (JObj [(''credit_cards'', JNum 0)])"
  by (simp add: has_key_def unwrapped_def is_wrapper_def parseAgentResponse_eq envelope_def
        payload_of_def has_structured_key_def conversational_report_def textResponse_def
        coalesce_def nullish_def spec_structured_def spec_default_def)

text \<open>
  C5. For every envelope whose \<open>success\<close> is false (or otherwise falsy), and for every
  envelope that carries no result payload (absent, or a falsy value), the result is
  \<open>null\<close>: no report, and no exception.
\<close>

theorem parse_null_on_failure:
  assumes "\<not> truthy (get result ''success'') \<or> \<not> truthy (payload_of result)"
  shows "parseAgentResponse stringify result = Inr None"
  using assms by (auto simp: parseAgentResponse_eq)

theorem parse_null_example:
  "parseAgentResponse (\<lambda>v. ''serialized'')
      (JObj [(''success'', JBool False), (''response'', JObj [(''result'', JStr ''hello'')])])
     = Inr None
   \<and> parseAgentResponse (\<lambda>v. ''serialized'')
      (JObj [(''success'', JBool True), (''response'', JObj [(''message'', JStr ''done'')])])
     = Inr None"
  using parse_null_on_failure [of
      "JObj [(''success'', JBool False), (''response'', JObj [(''result'', JStr ''hello'')])]"
      "\<lambda>v. ''serialized''"]
    parse_null_on_failure [of
      "JObj [(''success'', JBool True), (''response'', JObj [(''message'', JStr ''done'')])]"
      "\<lambda>v. ''serialized''"]
  by (simp add: payload_of_def)

lemma conversational_report_shape: "is_conversational (conversational_report txt)"
  by (simp add: is_conversational_def conversational_report_def)

lemma textResponse_eq: "textResponse stringify raw = spec_text stringify raw"
  by (cases raw) (simp_all add: textResponse_def spec_text_def coalesce_def)

lemma unwrapped_no_wrapper: "no_wrapper d \<Longrightarrow> unwrapped d = d"
  by (simp add: unwrapped_def no_wrapper_def Let_def)

lemma get_wrapper_obj: "is_wrapper (get d k) \<Longrightarrow> is_wrapper d"
  by (cases d) (simp_all add: is_wrapper_def)

text \<open>
  C4 (as amended). Every report \<open>parseAgentResponse\<close> produces is of one of three kinds:
  structured with a non-null \<open>income_summary\<close>; conversational, with every field but
  \<open>follow_up_response\<close> at its empty or zero default; or the structured report of a
  payload whose \<open>income_summary\<close> is absent or null and whose \<open>credit_cards\<close> or
  \<open>category_breakdown\<close> is truthy. The first two kinds exclude each other.
\<close>

theorem parse_kinds:
  assumes "parseAgentResponse stringify result = Inr (Some r)"
  shows "(income_summary r \<noteq> JNull \<and> \<not> is_conversational r)
       \<or> is_conversational r
       \<or> (r = spec_structured (unwrapped (payload_of result))
            \<and> nullish (get (unwrapped (payload_of result)) ''income_summary'')
            \<and> (truthy (get (unwrapped (payload_of result)) ''credit_cards'')
                 \<or> truthy (get (unwrapped (payload_of result)) ''category_breakdown'')))"
proof (cases "has_structured_key (unwrapped (payload_of result))")
  case True
  with assms have r: "r = spec_structured (unwrapped (payload_of result))"
    by (simp add: parseAgentResponse_eq split: if_splits)
  show ?thesis
  proof (cases "nullish (get (unwrapped (payload_of result)) ''income_summary'')")
    case True
    then have "\<not> truthy (get (unwrapped (payload_of result)) ''income_summary'')"
      by (auto simp: nullish_def)
    with \<open>has_structured_key _\<close> True r show ?thesis
      by (simp add: has_structured_key_def)
  next
    case False
    then have "income_summary r \<noteq> JNull"
      by (simp add: r spec_structured_def nullish_def)
    then show ?thesis
      by (simp add: is_conversational_def)
  qed
next
  case False
  with assms have "r = conversational_report (textResponse stringify (payload_of result))"
    by (simp add: parseAgentResponse_eq split: if_splits)
  then show ?thesis
    by (simp add: conversational_report_shape)
qed

text \<open>A raw string payload gives a conversational report.\<close>

theorem parse_kinds_example:
  "parseAgentResponse (\<lambda>v. ''serialized'') (envelope (JStr ''hello''))
     = Inr (Some (conversational_report (JStr ''hello'')))
   \<and> is_conversational (conversational_report (JStr ''hello''))"
proof -
  have p: "parseAgentResponse (\<lambda>v. ''serialized'') (envelope (JStr ''hello''))
     = Inr (Some (conversational_report (JStr ''hello'')))"
    by (simp add: parseAgentResponse_eq envelope_def payload_of_def unwrapped_def
        is_wrapper_def has_structured_key_def textResponse_def)
  from parse_kinds [OF p] p show ?thesis
    by (simp add: is_conversational_def conversational_report_def nullish_def payload_of_def
        envelope_def unwrapped_def is_wrapper_def)
qed

text \<open>
  C4 as stated fails: a payload with credit cards and no income summary yields a report
  whose \<open>income_summary\<close> is null while \<open>credit_cards\<close>, \<open>report_type\<close> and
  \<open>analysis_period\<close> are populated: neither structured nor conversational.
\<close>

theorem parse_mixed_report:
  "parseAgentResponse (\<lambda>v. ''serialized'')
      (envelope (JObj [(''credit_cards'', JArr [JObj [(''card_name'', JStr ''X'')]])]))
     = Inr (Some \<lparr> report_type = JStr ''Monthly Analysis'', income_summary = JNull,
         credit_cards = [JObj [(''card_name'', JStr ''X'')]],
         category_breakdown = [], risk_alerts = [], safe_to_spend = 0,
         analysis_period = JStr ''Current Month'', advice = JStr [],
         follow_up_response = JStr [] \<rparr>)
   \<and> \<not> is_conversational \<lparr> report_type = JStr ''Monthly Analysis'', income_summary = JNull,
         credit_cards = [JObj [(''card_name'', JStr ''X'')]],
         category_breakdown = [], risk_alerts = [], safe_to_spend = 0,
         analysis_period = JStr ''Current Month'', advice = JStr [],
         follow_up_response = JStr [] \<rparr>"
  by (simp add: parseAgentResponse_eq envelope_def payload_of_def unwrapped_def
        is_wrapper_def has_structured_key_def spec_structured_def spec_default_def
        spec_array_def spec_number_def is_conversational_def)

text \<open>
  C6 (as amended). For every successful envelope with a payload (a truthy
  \<open>response.result\<close>) whose unwrapped form has none of \<open>income_summary\<close>,
  \<open>credit_cards\<close>, \<open>category_breakdown\<close> truthy (in particular when none of the keys is
  there), \<open>parseAgentResponse\<close> returns a report whose only non-default field is
  \<open>follow_up_response\<close>; and when the payload has no \<open>result\<close> or \<open>response\<close> object to
  unwrap, that field follows the priority order: the payload itself if a string, else
  its \<open>text\<close>, else its \<open>message\<close> (each when neither absent nor null), else the
  serialization of the payload.
\<close>

theorem parse_conversational_correct:
  assumes "truthy (get result ''success'')"
    and "truthy (payload_of result)"
    and "\<not> has_structured_key (unwrapped (payload_of result))"
  shows "\<exists>r. parseAgentResponse stringify result = Inr (Some r) \<and> is_conversational r
           \<and> (no_wrapper (payload_of result)
                \<longrightarrow> follow_up_response r = spec_text stringify (payload_of result))"
  using assms
  by (simp add: parseAgentResponse_eq conversational_report_shape textResponse_eq)
     (simp add: conversational_report_def)

text \<open>A payload with a \<open>message\<close> and no \<open>text\<close>.\<close>

theorem parse_conversational_example:
  "parseAgentResponse (\<lambda>v. ''serialized'')
      (envelope (JObj [(''status'', JStr ''ok''), (''message'', JStr ''All good'')]))
     = Inr (Some (conversational_report (JStr ''All good'')))"
  using parse_conversational_correct [of
      "envelope (JObj [(''status'', JStr ''ok''), (''message'', JStr ''All good'')])"
      "\<lambda>v. ''serialized''"]
  by (auto simp: envelope_def payload_of_def unwrapped_def is_wrapper_def has_structured_key_def
        no_wrapper_def spec_text_def nullish_def is_conversational_def
        conversational_report_def)

text \<open>
  C6 as stated fails at two payloads without any of the three keys. The empty string is a
  raw string payload, and the result is \<open>null\<close>, not a report holding it (line 228). The
  payload \<open>{result: {text: "hi"}}\<close> unwraps to \<open>{text: "hi"}\<close>, whose \<open>text\<close> field is
  \<open>"hi"\<close>, yet \<open>follow_up_response\<close> is the serialization of the wrapper: lines 253-255
  read \<open>rawResult\<close>, not the unwrapped \<open>data\<close>.
\<close>

theorem parse_conversational_refuted:
  "parseAgentResponse (\<lambda>v. ''serialized'') (envelope (JStr [])) = Inr None
   \<and> unwrapped (JObj [(''result'', JObj [(''text'', JStr ''hi'')])])
       = JObj [(''text'', JStr ''hi'')]
   \<and> spec_text (\<lambda>v. ''serialized'') (JObj [(''text'', JStr ''hi'')]) = JStr ''hi''
   \<and> parseAgentResponse (\<lambda>v. ''serialized'')
        (envelope (JObj [(''result'', JObj [(''text'', JStr ''hi'')])]))
       = Inr (Some (conversational_report (JStr ''serialized'')))"
  by (simp add: parseAgentResponse_eq envelope_def payload_of_def unwrapped_def
        is_wrapper_def has_structured_key_def textResponse_def coalesce_def nullish_def
        spec_text_def)

text \<open>
  C7 (as amended). Let \<open>P\<close> be a structured payload: an object with one of the three keys
  truthy and no object of its own under \<open>result\<close> or \<open>response\<close>. For every successful
  envelope whose payload wraps \<open>P\<close> as its \<open>result\<close>, as its \<open>response\<close> (with no object
  under \<open>result\<close>), or as the \<open>response\<close> of its \<open>result\<close>, the report is the one
  produced for \<open>P\<close> itself.
\<close>

theorem parse_unwraps_structured:
  assumes "is_wrapper P" and "no_wrapper P" and "has_structured_key P"
    and "get raw ''result'' = P
         \<or> (\<not> is_wrapper (get raw ''result'') \<and> get raw ''response'' = P)
         \<or> (is_wrapper (get raw ''result'') \<and> get (get raw ''result'') ''response'' = P)"
  shows "parseAgentResponse stringify (envelope raw) = parseAgentResponse stringify (envelope P)
       \<and> parseAgentResponse stringify (envelope P) = Inr (Some (spec_structured P))"
proof -
  have payload: "payload_of (envelope v) = v" for v
    by (simp add: payload_of_def envelope_def)
  have success: "truthy (get (envelope v) ''success'')" for v
    by (simp add: envelope_def)
  have "unwrapped raw = P"
    using assms(1,2,4) by (auto simp: unwrapped_def no_wrapper_def Let_def)
  moreover have "unwrapped P = P"
    using assms(2) by (rule unwrapped_no_wrapper)
  moreover have "is_wrapper raw"
    using assms(1,4) by (auto dest: get_wrapper_obj)
  then have "truthy raw"
    by (rule wrapper_truthy)
  moreover have "truthy P"
    using assms(1) by (rule wrapper_truthy)
  ultimately show ?thesis
    using assms(3) by (simp add: parseAgentResponse_eq payload success)
qed

text \<open>A report wrapped in \<open>result\<close> and then \<open>response\<close>.\<close>

theorem parse_unwraps_example:
  "parseAgentResponse (\<lambda>v. ''serialized'')
      (envelope (JObj [(''result'', JObj [(''response'',
         JObj [(''income_summary'', JObj [(''net_income'', JNum 100)]),
               (''safe_to_spend'', JNum 40)])])]))
   = parseAgentResponse (\<lambda>v. ''serialized'')
      (envelope (JObj [(''income_summary'', JObj [(''net_income'', JNum 100)]),
                       (''safe_to_spend'', JNum 40)]))"
  using parse_unwraps_structured [of
      "JObj [(''income_summary'', JObj [(''net_income'', JNum 100)]), (''safe_to_spend'', JNum 40)]"
      "JObj [(''result'', JObj [(''response'',
         JObj [(''income_summary'', JObj [(''net_income'', JNum 100)]),
               (''safe_to_spend'', JNum 40)])])]"
      "\<lambda>v. ''serialized''"]
  by (simp add: is_wrapper_def no_wrapper_def has_structured_key_def)

text \<open>
  C7 as stated fails for \<open>result\<close> inside \<open>result\<close>: line 232 unwraps one \<open>result\<close>,
  line 235 then looks for \<open>response\<close> only, so the inner wrapper stays and the payload is
  taken for a conversational one.
\<close>

theorem parse_unwrap_order_refuted:
  "parseAgentResponse (\<lambda>v. ''serialized'')
      (envelope (JObj [(''result'', JObj [(''result'', JObj [(''credit_cards'', JArr [])])])]))
   \<noteq> parseAgentResponse (\<lambda>v. ''serialized'')
      (envelope (JObj [(''credit_cards'', JArr [])]))"
  by (simp add: parseAgentResponse_eq envelope_def payload_of_def unwrapped_def
        is_wrapper_def has_structured_key_def textResponse_def coalesce_def nullish_def
        spec_structured_def conversational_report_def spec_default_def)

section \<open>The history store\<close>

lemma take_append_take: "take n (xs @ take n ys) = take n (xs @ ys)"
  by (simp add: min_def)

lemma record_all_eq:
  "record_all h xs = (if xs = [] then h else take 20 (map entry_of (rev xs) @ h))"
proof (induction xs arbitrary: h)
  case Nil
  show ?case by simp
next
  case (Cons x xs)
  define h' where "h' = take 20 (entry_of x # h)"
  have step: "record_all h (x # xs) = record_all h' xs"
    by (cases x) (simp only: h'_def record_all.simps saveHistory_def entry_of_def prod.case)
  show ?case
  proof (cases "xs = []")
    case True
    have "record_all h (x # xs) = h'"
      using step unfolding True by simp
    also have "h' = take 20 (map entry_of (rev (x # xs)) @ h)"
      by (simp add: h'_def True)
    finally show ?thesis
      by (simp only: list.distinct if_False)
  next
    case False
    have "record_all h' xs = take 20 (map entry_of (rev xs) @ h')"
      by (simp only: Cons.IH False if_False)
    also have "\<dots> = take 20 (map entry_of (rev xs) @ entry_of x # h)"
      by (simp only: h'_def take_append_take)
    also have "\<dots> = take 20 (map entry_of (rev (x # xs)) @ h)"
      by simp
    finally show ?thesis
      by (simp only: step list.distinct if_False)
  qed
qed

lemma entry_id_entry_of: "entry_id (entry_of a) = fst a"
  by (cases a) (simp add: entry_of_def new_entry_def)

text \<open>A successful analysis is one call of \<open>saveHistory\<close> with the captured profile.\<close>

lemma analysis_records_history:
  "parseAgentResponse stringify result = Inr (Some r) \<Longrightarrow>
     history (handleAnalyze_settled stringify p (Inr result) stamp date s)
       = saveHistory stamp date r p (history s)"
  by (simp add: handleAnalyze_settled_def bindE_def Let_def)

text \<open>
  C3 (as amended). For every sequence \<open>xs\<close> of successful analyses (oldest first) recorded
  on top of a history \<open>h\<close>: the history holds at most 20 entries as soon as one analysis
  was recorded, and throughout when \<open>h\<close>, the history restored at startup, held at most
  20; once 20 or more were recorded, so in particular after more than 20, it is exactly
  the entries of the 20 most recent analyses, newest first, each once and none skipped;
  and its entry ids are pairwise distinct provided the \<open>Date.now()\<close> readings of the
  analyses are.
\<close>

theorem history_capped:
  "(xs \<noteq> [] \<or> length h \<le> 20 \<longrightarrow> length (record_all h xs) \<le> 20)
   \<and> (20 \<le> length xs \<longrightarrow>
        record_all h xs = map entry_of (take 20 (rev xs)) \<and> length (record_all h xs) = 20)
   \<and> (20 \<le> length xs \<and> distinct (map fst xs) \<longrightarrow>
        distinct (map entry_id (record_all h xs)))"
proof (intro conjI impI)
  assume "xs \<noteq> [] \<or> length h \<le> 20"
  then show "length (record_all h xs) \<le> 20"
    by (auto simp: record_all_eq)
next
  assume n: "20 \<le> length xs"
  then have ne: "xs \<noteq> []" by auto
  from n show eq: "record_all h xs = map entry_of (take 20 (rev xs))"
    by (simp add: record_all_eq ne take_map)
  from n show "length (record_all h xs) = 20"
    by (simp add: eq)
next
  assume a: "20 \<le> length xs \<and> distinct (map fst xs)"
  then have ne: "xs \<noteq> []" by auto
  from a have eq: "record_all h xs = map entry_of (take 20 (rev xs))"
    by (simp add: record_all_eq ne take_map)
  have "map entry_id (record_all h xs) = take 20 (rev (map fst xs))"
    by (simp add: eq entry_id_entry_of [abs_def] take_map rev_map comp_def)
  moreover have "distinct (take 20 (rev (map fst xs)))"
    using a by (intro distinct_take) simp
  ultimately show "distinct (map entry_id (record_all h xs))"
    by simp
qed

text \<open>Twenty-one analyses on an empty history.\<close>

theorem history_capped_example:
  "length (record_all []
      (map (\<lambda>n. (replicate n CHR ''I'', ''today'', SAMPLE_REPORT, SAMPLE_PROFILE)) [0..<21])) = 20
   \<and> distinct (map entry_id (record_all []
      (map (\<lambda>n. (replicate n CHR ''I'', ''today'', SAMPLE_REPORT, SAMPLE_PROFILE)) [0..<21])))"
proof -
  let ?xs = "map (\<lambda>n. (replicate n CHR ''I'', ''today'', SAMPLE_REPORT, SAMPLE_PROFILE)) [0..<21]"
  have len: "20 \<le> length ?xs" by simp
  have dist: "distinct (map fst ?xs)"
    by (simp add: distinct_map comp_def inj_on_def)
  note h = history_capped [of ?xs "[]"]
  from h len have l: "length (record_all [] ?xs) = 20" by blast
  from h len dist have d: "distinct (map entry_id (record_all [] ?xs))" by blast
  from l d show ?thesis by blast
qed

text \<open>
  C3 as stated fails before the first analysis is recorded: the mount effect (lines
  1030-1035) restores any stored array with \<open>setHistory(parsed)\<close> and no \<open>slice\<close>, so a
  store holding 25 entries gives a history of 25, and with no analysis recorded yet it
  stays at 25. The cap is applied by \<open>saveHistory\<close> only.
\<close>

theorem history_restored_oversized:
  "length (history (startup ''session_1''
      (HistoryArray (map (\<lambda>n. new_entry (replicate n CHR ''I'') ''today'' SAMPLE_REPORT
                             SAMPLE_PROFILE) [0..<25]))
      NoProfile)) = 25
   \<and> \<not> length (record_all (history (startup ''session_1''
      (HistoryArray (map (\<lambda>n. new_entry (replicate n CHR ''I'') ''today'' SAMPLE_REPORT
                             SAMPLE_PROFILE) [0..<25]))
      NoProfile)) []) \<le> 20"
  by (simp add: startup_def mount_effect_def initial_state_def)

section \<open>Selecting a history entry\<close>

text \<open>
  C10. Selecting a history entry twice gives the state that selecting it once gives: the
  active report is the entry's report and the active profile the entry's profile (kept
  as it was when the entry has none). The history is unchanged, and no gateway call is
  issued or left pending.
\<close>

theorem view_history_idempotent:
  "handleViewHistoryEntry e (handleViewHistoryEntry e s) = handleViewHistoryEntry e s
   \<and> report (handleViewHistoryEntry e s) = Some (entry_report e)
   \<and> profile (handleViewHistoryEntry e s)
       = (case entry_profile e of Some p \<Rightarrow> Some p | None \<Rightarrow> profile s)
   \<and> history (handleViewHistoryEntry e s) = history s
   \<and> gateway_calls (handleViewHistoryEntry e s) = gateway_calls s
   \<and> pendingAnalyses (handleViewHistoryEntry e s) = pendingAnalyses s
   \<and> pendingChats (handleViewHistoryEntry e s) = pendingChats s"
  by (cases "entry_profile e") (simp_all add: handleViewHistoryEntry_def)

text \<open>Selecting an entry twice from the initial state.\<close>

theorem view_history_example:
  "handleViewHistoryEntry (new_entry ''7'' ''today'' SAMPLE_REPORT SAMPLE_PROFILE)
     (handleViewHistoryEntry (new_entry ''7'' ''today'' SAMPLE_REPORT SAMPLE_PROFILE)
        initial_state)
   = initial_state \<lparr> profile := Some SAMPLE_PROFILE, hasProfile := True,
       report := Some SAMPLE_REPORT \<rparr>"
  using view_history_idempotent [of "new_entry ''7'' ''today'' SAMPLE_REPORT SAMPLE_PROFILE"
      initial_state]
  by (simp add: handleViewHistoryEntry_def new_entry_def initial_state_def)

section \<open>What the continuations leave untouched\<close>

lemma analyze_settled_fields:
  "loading (handleAnalyze_settled stringify p outcome stamp date s) = False"
  "pendingAnalyses (handleAnalyze_settled stringify p outcome stamp date s) = pendingAnalyses s"
  "profile (handleAnalyze_settled stringify p outcome stamp date s) = profile s"
  "hasProfile (handleAnalyze_settled stringify p outcome stamp date s) = hasProfile s"
  "gateway_calls (handleAnalyze_settled stringify p outcome stamp date s) = gateway_calls s"
  by (simp_all add: handleAnalyze_settled_def Let_def split: sum.splits option.splits thrown.splits)

lemma chat_settled_fields:
  "loading (handleChatSend_settled stringify outcome now s) = loading s"
  "error (handleChatSend_settled stringify outcome now s) = error s"
  "pendingAnalyses (handleChatSend_settled stringify outcome now s) = pendingAnalyses s"
  "profile (handleChatSend_settled stringify outcome now s) = profile s"
  "hasProfile (handleChatSend_settled stringify outcome now s) = hasProfile s"
  "history (handleChatSend_settled stringify outcome now s) = history s"
  "gateway_calls (handleChatSend_settled stringify outcome now s) = gateway_calls s"
  by (simp_all add: handleChatSend_settled_def Let_def split: sum.splits prod.splits)

lemma chat_start_fields:
  "loading (handleChatSend_start msg now s) = loading s"
  "error (handleChatSend_start msg now s) = error s"
  "pendingAnalyses (handleChatSend_start msg now s) = pendingAnalyses s"
  "profile (handleChatSend_start msg now s) = profile s"
  "hasProfile (handleChatSend_start msg now s) = hasProfile s"
  by (simp_all add: handleChatSend_start_def)

section \<open>A structured reply in the chat\<close>

lemma parse_income_example:
  "parseAgentResponse stringify
      (envelope (JObj [(''income_summary'', JObj [(''net_income'', JNum 100)])]))
   = Inr (Some \<lparr> report_type = JStr ''Monthly Analysis'',
         income_summary = JObj [(''net_income'', JNum 100)],
         credit_cards = [], category_breakdown = [], risk_alerts = [], safe_to_spend = 0,
         analysis_period = JStr ''Current Month'', advice = JStr [],
         follow_up_response = JStr [] \<rparr>)"
  by (simp add: parseAgentResponse_eq envelope_def payload_of_def unwrapped_def
        is_wrapper_def has_structured_key_def spec_structured_def spec_default_def
        spec_array_def spec_number_def)

text \<open>
  C2 (as amended). When the gateway response of a chat send normalizes to a report with a
  truthy \<open>income_summary\<close>, the chat continuation sets the active report to that report,
  the same slot and the same value a successful analysis sets for that response. Unlike
  the analysis, it appends no history entry, and it leaves the analysis busy flag and
  error untouched.
\<close>

theorem chat_replaces_report:
  assumes "parseAgentResponse stringify result = Inr (Some r)"
    and "truthy (income_summary r)"
  shows "report (handleChatSend_settled stringify (Inr result) now s) = Some r
       \<and> report (handleAnalyze_settled stringify p (Inr result) stamp date s) = Some r
       \<and> history (handleChatSend_settled stringify (Inr result) now s) = history s
       \<and> history (handleAnalyze_settled stringify p (Inr result) stamp date s)
           = saveHistory stamp date r p (history s)
       \<and> loading (handleChatSend_settled stringify (Inr result) now s) = loading s
       \<and> error (handleChatSend_settled stringify (Inr result) now s) = error s"
  using assms
  by (simp add: handleChatSend_settled_def handleAnalyze_settled_def bindE_def Let_def
        report_field_def)

text \<open>A chat reply carrying an income summary, received in the initial state.\<close>

theorem chat_replaces_report_example:
  "report (handleChatSend_settled (\<lambda>v. ''serialized'')
      (Inr (envelope (JObj [(''income_summary'', JObj [(''net_income'', JNum 100)])]))) 7
      initial_state)
   = Some \<lparr> report_type = JStr ''Monthly Analysis'',
         income_summary = JObj [(''net_income'', JNum 100)],
         credit_cards = [], category_breakdown = [], risk_alerts = [], safe_to_spend = 0,
         analysis_period = JStr ''Current Month'', advice = JStr [],
         follow_up_response = JStr [] \<rparr>"
  using chat_replaces_report [OF parse_income_example, of "\<lambda>v. ''serialized''" 7 initial_state]
  by simp

text \<open>
  C2 as stated fails: for the same structured response, the analysis continuation appends
  a history entry and the chat continuation does not, so the consequent effects differ.
\<close>

theorem chat_skips_history:
  "history (handleChatSend_settled (\<lambda>v. ''serialized'')
      (Inr (envelope (JObj [(''income_summary'', JObj [(''net_income'', JNum 100)])]))) 7
      initial_state) = []
   \<and> history (handleAnalyze_settled (\<lambda>v. ''serialized'') SAMPLE_PROFILE
      (Inr (envelope (JObj [(''income_summary'', JObj [(''net_income'', JNum 100)])])))
      ''7'' ''today'' initial_state) \<noteq> []"
  by (simp add: handleChatSend_settled_def handleAnalyze_settled_def bindE_def Let_def
        report_field_def parse_income_example saveHistory_def initial_state_def)

section \<open>One analysis at a time\<close>

text \<open>
  \<open>handleAnalyze\<close> has no test of \<open>loading\<close>: the gate is in what \<open>DashboardView\<close>
  renders. While \<open>loading\<close> is set no error is shown, so none of the three controls
  wired to \<open>onAnalyze\<close> is there.
\<close>

lemma busy_hides_analyze:
  assumes "analysis_inv s" and "loading s"
  shows "\<not> can_click_analyze s"
proof -
  from assms have "error s = None" and "hasProfile s"
    by (auto simp: analysis_inv_def)
  with assms(2) show ?thesis
    by (simp add: can_click_analyze_def current_view_def analyze_buttons_def
          try_again_button_def analyze_cta_button_def reanalyze_button_def)
qed

lemma handleAnalyze_start_ignores_loading:
  "profile s = Some p \<Longrightarrow>
     gateway_calls (handleAnalyze_start s) = gateway_calls s @ [AnalyzeCall p (sessionId s)]"
  by (simp add: handleAnalyze_start_def)

lemma inv_startup: "analysis_inv (startup sid sh sp)"
  by (simp add: startup_def mount_effect_def initial_state_def analysis_inv_def Let_def
        split: stored_history.splits stored_profile.splits)

lemma inv_analyze_start:
  assumes "analysis_inv s" and "can_click_analyze s"
  shows "analysis_inv (handleAnalyze_start s)"
proof (cases "profile s")
  case None
  with assms(1) show ?thesis by (simp add: handleAnalyze_start_def)
next
  case (Some p)
  from assms have "\<not> loading s"
    using busy_hides_analyze by blast
  with assms(1) have "pendingAnalyses s = []"
    by (simp add: analysis_inv_def)
  with assms(1) Some show ?thesis
    by (simp add: handleAnalyze_start_def analysis_inv_def)
qed

lemma inv_analysis_settled:
  assumes "analysis_inv s" and "i < length (pendingAnalyses s)"
  shows "analysis_inv (fire stringify (AnalysisSettled i outcome stamp date) s)"
proof -
  from assms have "length (pendingAnalyses s) = 1" and "i = 0"
    by (auto simp: analysis_inv_def)
  then have "take i (pendingAnalyses s) @ drop (Suc i) (pendingAnalyses s) = []"
    by simp
  then have f: "fire stringify (AnalysisSettled i outcome stamp date) s
      = handleAnalyze_settled stringify (pendingAnalyses s ! i) outcome stamp date
          (s\<lparr> pendingAnalyses := [] \<rparr>)"
    by (simp only: fire.simps)
  from assms(1) have "profile s \<noteq> None \<longrightarrow> hasProfile s"
    by (simp add: analysis_inv_def)
  then show ?thesis
    unfolding f by (simp add: analysis_inv_def analyze_settled_fields)
qed

lemma inv_fire:
  assumes "analysis_inv s" and "enabled ev s"
  shows "analysis_inv (fire stringify ev s)"
proof (cases ev)
  case ClickAnalyze
  with assms show ?thesis by (simp add: inv_analyze_start)
next
  case (AnalysisSettled i outcome stamp date)
  with assms show ?thesis by (simp only: inv_analysis_settled enabled.simps)
next
  case (ChatSend msg now)
  with assms(1) show ?thesis by (simp add: analysis_inv_def chat_start_fields)
next
  case (ChatSettled outcome now)
  with assms(1) show ?thesis by (simp add: analysis_inv_def chat_settled_fields)
next
  case (SaveProfile p)
  with assms(1) show ?thesis by (simp add: analysis_inv_def handleSaveProfile_def)
next
  case (SampleToggle checked)
  with assms(1) show ?thesis by (auto simp: analysis_inv_def handleSampleToggle_def Let_def)
next
  case (ViewHistoryEntry entry)
  with assms(1) show ?thesis
    by (cases "entry_profile entry") (simp_all add: analysis_inv_def handleViewHistoryEntry_def)
next
  case (TabChange t)
  with assms(1) show ?thesis by (simp add: analysis_inv_def)
next
  case (SetChatOpen b)
  with assms(1) show ?thesis by (simp add: analysis_inv_def)
qed

lemma inv_run:
  assumes "analysis_inv s" and "run stringify evs s = Some s'"
  shows "analysis_inv s'"
  using assms
proof (induction evs arbitrary: s)
  case Nil
  then show ?case by simp
next
  case (Cons ev evs)
  from Cons.prems(2) have en: "enabled ev s" and rest: "run stringify evs (fire stringify ev s) = Some s'"
    by (auto simp: step_def split: if_splits)
  from Cons.prems(1) en have "analysis_inv (fire stringify ev s)"
    by (rule inv_fire)
  then show ?case using rest by (rule Cons.IH)
qed

text \<open>
  C8. In every state reachable from startup, whatever the persistent store held, at most
  one analysis request awaits its response; the busy flag is set exactly while one does,
  and while it is set the page offers no control that triggers the analyze operation, so
  no new gateway request is issued.
\<close>

theorem one_analysis_in_flight:
  assumes "run stringify evs (startup sid sh sp) = Some s"
  shows "length (pendingAnalyses s) \<le> 1
       \<and> (loading s \<longleftrightarrow> pendingAnalyses s \<noteq> [])
       \<and> (loading s \<longrightarrow> \<not> can_click_analyze s \<and> step stringify ClickAnalyze s = None)"
proof -
  have inv: "analysis_inv s"
    using inv_startup assms by (rule inv_run)
  then have "loading s \<longrightarrow> \<not> can_click_analyze s"
    using busy_hides_analyze by blast
  with inv show ?thesis
    by (simp add: analysis_inv_def step_def)
qed

text \<open>Startup with a stored profile, then a click on "Analyze My Finances".\<close>

lemma run_click_from_profile:
  assumes "salary p \<noteq> 0"
  shows "run stringify [ClickAnalyze] (startup sid NoHistory (ProfileObj p))
    = Some ((startup sid NoHistory (ProfileObj p))
        \<lparr> loading := True, error := None, activeAgentId := Some MANAGER_AGENT_ID,
          gateway_calls := [AnalyzeCall p sid], pendingAnalyses := [p] \<rparr>)"
  using assms
  by (simp add: step_def can_click_analyze_def current_view_def analyze_buttons_def
        try_again_button_def analyze_cta_button_def reanalyze_button_def startup_def
        mount_effect_def initial_state_def handleAnalyze_start_def)

theorem one_analysis_in_flight_example:
  "run (\<lambda>v. ''serialized'') [ClickAnalyze] (startup ''session_1'' NoHistory (ProfileObj SAMPLE_PROFILE))
     = Some ((startup ''session_1'' NoHistory (ProfileObj SAMPLE_PROFILE))
        \<lparr> loading := True, error := None, activeAgentId := Some MANAGER_AGENT_ID,
          gateway_calls := [AnalyzeCall SAMPLE_PROFILE ''session_1''],
          pendingAnalyses := [SAMPLE_PROFILE] \<rparr>)
   \<and> step (\<lambda>v. ''serialized'') ClickAnalyze
        ((startup ''session_1'' NoHistory (ProfileObj SAMPLE_PROFILE))
        \<lparr> loading := True, error := None, activeAgentId := Some MANAGER_AGENT_ID,
          gateway_calls := [AnalyzeCall SAMPLE_PROFILE ''session_1''],
          pendingAnalyses := [SAMPLE_PROFILE] \<rparr>) = None"
proof -
  have r: "run (\<lambda>v. ''serialized'') [ClickAnalyze]
        (startup ''session_1'' NoHistory (ProfileObj SAMPLE_PROFILE))
     = Some ((startup ''session_1'' NoHistory (ProfileObj SAMPLE_PROFILE))
        \<lparr> loading := True, error := None, activeAgentId := Some MANAGER_AGENT_ID,
          gateway_calls := [AnalyzeCall SAMPLE_PROFILE ''session_1''],
          pendingAnalyses := [SAMPLE_PROFILE] \<rparr>)"
    by (rule run_click_from_profile) (simp add: SAMPLE_PROFILE_def)
  from one_analysis_in_flight [OF r] r show ?thesis
    by simp
qed

section \<open>Incomplete profiles\<close>

text \<open>
  C9 (failing input). The store holds a profile with salary -100. The startup test
  \<open>parsed?.salary\<close> of line 1040 is a truthiness test, which a negative number passes;
  \<open>handleAnalyze\<close> then only checks that a profile is there, and the click issues a
  gateway request for a profile whose salary is not greater than 0.
\<close>

theorem negative_salary_analyzed:
  "map_option gateway_calls
     (run (\<lambda>v. ''serialized'') [ClickAnalyze]
        (startup ''session_1'' NoHistory
           (ProfileObj \<lparr> salary = - 100, cards = [], emis = [],
                         fixedExpenses = \<lparr> rent = 0, utilities = 0, insurance = 0 \<rparr> \<rparr>)))
   = Some [AnalyzeCall \<lparr> salary = - 100, cards = [], emis = [],
                         fixedExpenses = \<lparr> rent = 0, utilities = 0, insurance = 0 \<rparr> \<rparr>
             ''session_1'']
   \<and> salary \<lparr> salary = - 100, cards = [], emis = [],
               fixedExpenses = \<lparr> rent = 0, utilities = 0, insurance = 0 \<rparr> \<rparr> \<le> 0"
proof -
  have "run (\<lambda>v. ''serialized'') [ClickAnalyze]
        (startup ''session_1'' NoHistory
           (ProfileObj \<lparr> salary = - 100, cards = [], emis = [],
                         fixedExpenses = \<lparr> rent = 0, utilities = 0, insurance = 0 \<rparr> \<rparr>))
    = Some ((startup ''session_1'' NoHistory
           (ProfileObj \<lparr> salary = - 100, cards = [], emis = [],
                         fixedExpenses = \<lparr> rent = 0, utilities = 0, insurance = 0 \<rparr> \<rparr>))
        \<lparr> loading := True, error := None, activeAgentId := Some MANAGER_AGENT_ID,
          gateway_calls := [AnalyzeCall \<lparr> salary = - 100, cards = [], emis = [],
                         fixedExpenses = \<lparr> rent = 0, utilities = 0, insurance = 0 \<rparr> \<rparr>
             ''session_1''],
          pendingAnalyses := [\<lparr> salary = - 100, cards = [], emis = [],
                         fixedExpenses = \<lparr> rent = 0, utilities = 0, insurance = 0 \<rparr> \<rparr>] \<rparr>)"
    by (rule run_click_from_profile) simp
  then show ?thesis
    by (simp del: run.simps)
qed

text \<open>
  With a store that holds only non-negative salaries and history entries of complete
  profiles, every analysis request is for a complete profile: the form's
  \<open>disabled={form.salary <= 0}\<close> is the check the startup path lacks.
\<close>

lemma salary_inv_startup: "clean_store sh sp \<Longrightarrow> salary_inv (startup sid sh sp)"
  by (auto simp: clean_store_def salary_inv_def startup_def mount_effect_def initial_state_def
        profile_ok_def Let_def split: stored_history.splits stored_profile.splits)

lemma list_all_take_Cons:
  "P x \<Longrightarrow> list_all P xs \<Longrightarrow> list_all P (take n (x # xs))"
  using set_take_subset [of n "x # xs"] by (auto simp: list_all_iff)

lemma saveHistory_profiles:
  assumes "list_all (\<lambda>e. profile_ok (entry_profile e)) h" and "0 < salary p"
  shows "list_all (\<lambda>e. profile_ok (entry_profile e)) (saveHistory stamp date r p h)"
  unfolding saveHistory_def
  using assms by (intro list_all_take_Cons) (simp_all add: new_entry_def profile_ok_def)

lemma salary_inv_settled:
  assumes "salary_inv s" and "0 < salary p"
  shows "salary_inv (handleAnalyze_settled stringify p outcome stamp date s)"
  using assms
  by (simp add: salary_inv_def handleAnalyze_settled_def Let_def saveHistory_profiles
        split: sum.splits option.splits thrown.splits)

lemma salary_inv_fire:
  assumes "salary_inv s" and "enabled ev s"
  shows "salary_inv (fire stringify ev s)"
proof (cases ev)
  case ClickAnalyze
  with assms(1) show ?thesis
    by (auto simp: salary_inv_def handleAnalyze_start_def profile_ok_def split: option.splits)
next
  case (AnalysisSettled i outcome stamp date)
  with assms(2) have i: "i < length (pendingAnalyses s)" by simp
  with assms(1) have p: "0 < salary (pendingAnalyses s ! i)"
    by (simp add: salary_inv_def list_all_length)
  from assms(1) have "list_all (\<lambda>p. 0 < salary p)
      (take i (pendingAnalyses s) @ drop (Suc i) (pendingAnalyses s))"
    by (auto simp: salary_inv_def list_all_iff dest: in_set_takeD in_set_dropD)
  with assms(1) have "salary_inv (s\<lparr> pendingAnalyses
      := take i (pendingAnalyses s) @ drop (Suc i) (pendingAnalyses s) \<rparr>)"
    by (simp add: salary_inv_def)
  then show ?thesis
    unfolding AnalysisSettled fire.simps using p by (rule salary_inv_settled)
next
  case (ChatSend msg now)
  with assms(1) show ?thesis by (simp add: salary_inv_def handleChatSend_start_def)
next
  case (ChatSettled outcome now)
  with assms(1) show ?thesis by (simp add: salary_inv_def chat_settled_fields)
next
  case (SaveProfile p)
  with assms show ?thesis by (simp add: salary_inv_def handleSaveProfile_def profile_ok_def)
next
  case (SampleToggle checked)
  with assms(1) show ?thesis
    by (auto simp: salary_inv_def handleSampleToggle_def Let_def profile_ok_def SAMPLE_PROFILE_def)
next
  case (ViewHistoryEntry entry)
  with assms(2) have "entry \<in> set (history s)" by simp
  with assms(1) have "profile_ok (entry_profile entry)"
    by (simp add: salary_inv_def list_all_iff)
  with assms(1) ViewHistoryEntry show ?thesis
    by (cases "entry_profile entry")
       (simp_all add: salary_inv_def handleViewHistoryEntry_def profile_ok_def)
next
  case (TabChange t)
  with assms(1) show ?thesis by (simp add: salary_inv_def)
next
  case (SetChatOpen b)
  with assms(1) show ?thesis by (simp add: salary_inv_def)
qed

lemma salary_inv_run:
  assumes "salary_inv s" and "run stringify evs s = Some s'"
  shows "salary_inv s'"
  using assms
proof (induction evs arbitrary: s)
  case Nil
  then show ?case by simp
next
  case (Cons ev evs)
  from Cons.prems(2) have en: "enabled ev s"
    and rest: "run stringify evs (fire stringify ev s) = Some s'"
    by (auto simp: step_def split: if_splits)
  from Cons.prems(1) en have "salary_inv (fire stringify ev s)"
    by (rule salary_inv_fire)
  then show ?case using rest by (rule Cons.IH)
qed

lemma clean_store_salary_positive:
  assumes "clean_store sh sp" and "run stringify evs (startup sid sh sp) = Some s"
  shows "list_all call_ok (gateway_calls s)"
proof -
  from assms(1) have "salary_inv (startup sid sh sp)"
    by (rule salary_inv_startup)
  then have "salary_inv s"
    using assms(2) by (rule salary_inv_run)
  then show ?thesis
    by (simp add: salary_inv_def)
qed

end
